theory Spec2Isabelle
  imports Main
begin

section \<open>The service definition: \<open>PrismaDefinitionClass\<close> and \<open>concatName\<close>\<close>

subsection \<open>JavaScript values read from \<open>prisma.yml\<close>\<close>

text \<open>
  The values of the parsed \<open>prisma.yml\<close> are JavaScript values. \<open>getHooks\<close> observes
  them through truthiness, \<open>typeof v === 'string'\<close>, \<open>Array.isArray(v)\<close> and property
  lookup only. Numbers are doubles in the source; they are kept as an integer or
  \<open>NaN\<close>, which is all that truthiness tells apart (zero and \<open>NaN\<close> are falsy, every
  other number is truthy).
\<close>

datatype js_value =
    JUndefined
  | JNull
  | JBool bool
  | JNum int
  | JNaN
  | JStr string
  | JArr "js_value list"
  | JObj "(string \<times> js_value) list"

text \<open>JavaScript's \<open>ToBoolean\<close>: what \<open>if (v)\<close>, \<open>v && w\<close> and \<open>v ? a : b\<close> test.\<close>

fun truthy :: "js_value \<Rightarrow> bool" where
  "truthy JUndefined = False"
| "truthy JNull = False"
| "truthy (JBool b) = b"
| "truthy (JNum n) = (n \<noteq> 0)"
| "truthy JNaN = False"
| "truthy (JStr s) = (s \<noteq> [])"
| "truthy (JArr xs) = True"
| "truthy (JObj kvs) = True"

text \<open>\<open>typeof v === 'string'\<close> and \<open>Array.isArray(v)\<close>.\<close>

fun is_string :: "js_value \<Rightarrow> bool" where
  "is_string (JStr s) = True"
| "is_string v = False"

fun is_array :: "js_value \<Rightarrow> bool" where
  "is_array (JArr xs) = True"
| "is_array v = False"

text \<open>
  Property lookup \<open>v[key]\<close> for a key that is no built-in property of strings or arrays
  (the only key used is \<open>'post-deploy'\<close>): the stored value on an object that has the
  key, \<open>undefined\<close> otherwise. The source guards the lookup with the truthiness of
  \<open>v\<close>, so it is never applied to \<open>undefined\<close> or \<open>null\<close>, where JavaScript would throw.
\<close>

fun get_prop :: "js_value \<Rightarrow> string \<Rightarrow> js_value" where
  "get_prop (JObj kvs) key = (case map_of kvs key of Some v \<Rightarrow> v | None \<Rightarrow> JUndefined)"
| "get_prop v key = JUndefined"

subsection \<open>The class state\<close>

text \<open>\<open>type HookType = 'post-deploy'\<close>.\<close>

datatype HookType = PostDeploy

fun hookKey :: "HookType \<Rightarrow> string" where
  "hookKey PostDeploy = ''post-deploy''"

text \<open>
  Of \<open>PrismaDefinition\<close> the methods below read the \<open>hooks\<close> property only
  (\<open>JUndefined\<close> when \<open>prisma.yml\<close> has none). Of the class they read the optional
  \<open>definition\<close> (here \<open>definition'\<close>) and \<open>secrets: string[] | null\<close>.
\<close>

record PrismaDefinition =
  hooks :: js_value

record PrismaDefinitionClass =
  definition' :: "PrismaDefinition option"
  secrets :: "string list option"

datatype js_error = Error string

subsection \<open>\<open>getHooks\<close>\<close>

text \<open>
  \<^verbatim>\<open>
  getHooks(hookType: HookType): string[] {
    if (this.definition && this.definition.hooks && this.definition.hooks[hookType]) {
      const hooks = this.definition.hooks[hookType]
      if (typeof hooks !== 'string' && !Array.isArray(hooks)) {
        throw new Error(`Hook ${hookType} provided in prisma.yml must be string or an array of strings.`)
      }
      return typeof hooks === 'string' ? [hooks] : hooks
    }
    return []
  }
  \<close>
  A throw is \<open>Inl\<close>, a returned array is \<open>Inr\<close> of its elements.
\<close>

fun array_elems :: "js_value \<Rightarrow> js_value list" where
  "array_elems (JArr xs) = xs"
| "array_elems v = []"

definition getHooks :: "PrismaDefinitionClass \<Rightarrow> HookType \<Rightarrow> js_error + js_value list" where
  "getHooks this hookType =
     (case definition' this of
        None \<Rightarrow> Inr []
      | Some d \<Rightarrow>
          if truthy (hooks d) \<and> truthy (get_prop (hooks d) (hookKey hookType)) then
            (let hooks' = get_prop (hooks d) (hookKey hookType) in
             if \<not> is_string hooks' \<and> \<not> is_array hooks' then
               Inl (Error (''Hook '' @ hookKey hookType @
                      '' provided in prisma.yml must be string or an array of strings.''))
             else Inr (if is_string hooks' then [hooks'] else array_elems hooks'))
          else Inr [])"

text \<open>
  The value the definition declares for a hook type: what \<open>this.definition.hooks[hookType]\<close>
  evaluates to, \<open>undefined\<close> when the definition or its \<open>hooks\<close> is missing.
\<close>

definition declaredHook :: "PrismaDefinitionClass \<Rightarrow> HookType \<Rightarrow> js_value" where
  "declaredHook this hookType =
     (case definition' this of
        None \<Rightarrow> JUndefined
      | Some d \<Rightarrow> if truthy (hooks d) then get_prop (hooks d) (hookKey hookType) else JUndefined)"

subsection \<open>\<open>getToken\<close>\<close>

text \<open>
  \<^verbatim>\<open>
  getToken(serviceName: string, stageName: string): string | undefined {
    if (this.secrets) {
      const data = { data: { service: `${serviceName}@${stageName}`, roles: ['admin'] } }
      return jwt.sign(data, this.secrets[0], { expiresIn: '7d' })
    }
    return undefined
  }
  \<close>
  \<open>jwt.sign\<close> belongs to the library \<open>jsonwebtoken\<close>; it is a parameter here. Called
  without a callback it returns the token string or throws, so its result is
  \<open>js_error + string\<close>. Its key is \<open>this.secrets[0]\<close>, which is \<open>undefined\<close> (\<open>None\<close>) on
  an empty array. An array is truthy even when empty, so \<open>if (this.secrets)\<close> tests for
  \<open>null\<close> only.
\<close>

record token_data =
  service :: string
  roles :: "string list"

record token_payload =
  data :: token_data

record sign_options =
  expiresIn :: string

type_synonym jwt_sign = "token_payload \<Rightarrow> string option \<Rightarrow> sign_options \<Rightarrow> js_error + string"

definition token_payload_of :: "string \<Rightarrow> string \<Rightarrow> token_payload" where
  "token_payload_of serviceName stageName =
     \<lparr>data = \<lparr>service = serviceName @ ''@'' @ stageName, roles = [''admin'']\<rparr>\<rparr>"

fun first_elem :: "'a list \<Rightarrow> 'a option" where
  "first_elem [] = None"
| "first_elem (x # xs) = Some x"

text \<open>\<open>Inl\<close>: \<open>jwt.sign\<close> threw; \<open>Inr None\<close>: \<open>undefined\<close>; \<open>Inr (Some t)\<close>: the token \<open>t\<close>.\<close>

definition getToken ::
  "jwt_sign \<Rightarrow> PrismaDefinitionClass \<Rightarrow> string \<Rightarrow> string \<Rightarrow> js_error + string option" where
  "getToken sign this serviceName stageName =
     (case secrets this of
        Some ss \<Rightarrow>
          (case sign (token_payload_of serviceName stageName) (first_elem ss)
                  \<lparr>expiresIn = ''7d''\<rparr> of
             Inl e \<Rightarrow> Inl e
           | Inr t \<Rightarrow> Inr (Some t))
      | None \<Rightarrow> Inr None)"

subsection \<open>\<open>concatName\<close>\<close>

text \<open>
  \<^verbatim>\<open>
  export function concatName(cluster: Cluster, name: string, workspace: string | null) {
    if (cluster.shared) {
      const workspaceString = workspace ? `${workspace}~` : ''
      return `${workspaceString}${name}`
    }
    return name
  }
  \<close>
  Of \<open>Cluster\<close> only the boolean \<open>shared\<close> is read. \<open>workspace\<close> is \<open>None\<close> for \<open>null\<close>; the
  test \<open>workspace ? ... : ...\<close> is truthiness, and the empty string is falsy.
\<close>

record Cluster =
  shared :: bool

definition concatName :: "Cluster \<Rightarrow> string \<Rightarrow> string option \<Rightarrow> string" where
  "concatName cluster name workspace =
     (if shared cluster then
        (let workspaceString =
               (case workspace of
                  None \<Rightarrow> []
                | Some w \<Rightarrow> if truthy (JStr w) then w @ ''~'' else [])
         in workspaceString @ name)
      else name)"

section \<open>Database introspection\<close>

text \<open>
  The introspector (\<open>Introspector\<close>, \<open>PostgresConnector\<close>) is imported by
  \<open>relations.test.ts\<close> but its code is not among the sources; only the test is. The
  definitions of this section are therefore modelled from the specification, each one
  marked so. The test's four schemas are translated from the test source.
\<close>

subsection \<open>The relational model\<close>



text \<open>
  Modelled from the spec: the update and delete actions of a foreign key (\<section>3: "cascade |
  set-null | restrict | no-action"). The schema model builder's code is missing.
\<close>

datatype fk_action = Cascade | SetNull | Restrict | NoAction



subsection \<open>Connector and schema model builder\<close>






subsection \<open>Relation classifier\<close>















subsection \<open>SDL emitter\<close>













subsection \<open>Changing the nullability of a column\<close>







subsection \<open>The schemas of \<open>relations.test.ts\<close>\<close>










subsection \<open>Further schemas\<close>














section \<open>Properties of the service definition\<close>

text \<open>
  Claim C8, as amended. \<open>concatName\<close> is the identity on the service name for every
  non-shared cluster; for a shared cluster it returns the name prefixed with
  \<open><workspace>~\<close> when the workspace is a non-empty string, and the bare name when the
  workspace is \<open>null\<close> or the empty string.
\<close>

theorem concatName_cases:
  "(\<not> shared cluster \<longrightarrow> concatName cluster name workspace = name) \<and>
   (shared cluster \<longrightarrow>
      (\<forall>w. workspace = Some w \<and> w \<noteq> [] \<longrightarrow> concatName cluster name workspace = w @ ''~'' @ name) \<and>
      (workspace = None \<or> workspace = Some [] \<longrightarrow> concatName cluster name workspace = name))"
  by (auto simp: concatName_def)

theorem concatName_cases_witness:
  "concatName \<lparr>shared = False\<rparr> ''svc'' (Some ''team'') = ''svc'' \<and>
   concatName \<lparr>shared = True\<rparr> ''svc'' (Some ''team'') = ''team~svc'' \<and>
   concatName \<lparr>shared = True\<rparr> ''svc'' None = ''svc''"
  using concatName_cases [of "\<lparr>shared = False\<rparr>" "''svc''" "Some ''team''"]
    concatName_cases [of "\<lparr>shared = True\<rparr>" "''svc''" "Some ''team''"]
    concatName_cases [of "\<lparr>shared = True\<rparr>" "''svc''" None]
  by simp

text \<open>
  Claim C8 as stated fails: on a shared cluster the workspace \<open>''\<close> is not \<open>null\<close>, yet
  the result is the bare name and not \<open>~svc\<close>.
\<close>

theorem concatName_empty_workspace_counterexample:
  "concatName \<lparr>shared = True\<rparr> ''svc'' (Some []) = ''svc'' \<and>
   concatName \<lparr>shared = True\<rparr> ''svc'' (Some []) \<noteq> [] @ ''~'' @ ''svc''"
  by (simp add: concatName_def)

text \<open>
  Claim C9. \<open>getToken\<close> returns \<open>undefined\<close> if and only if \<open>secrets\<close> is \<open>null\<close>; with
  secrets \<open>s, ...\<close> loaded its outcome is that of signing the payload with \<open>s\<close>, the first
  of them, whatever follows \<open>s\<close> in the list.
\<close>

theorem getToken_first_secret:
  "(getToken sign this serviceName stageName = Inr None \<longleftrightarrow> secrets this = None) \<and>
   (\<forall>s rest. secrets this = Some (s # rest) \<longrightarrow>
      getToken sign this serviceName stageName =
        (case sign (token_payload_of serviceName stageName) (Some s) \<lparr>expiresIn = ''7d''\<rparr> of
           Inl e \<Rightarrow> Inl e | Inr t \<Rightarrow> Inr (Some t)) \<and>
      getToken sign this serviceName stageName =
        getToken sign (this\<lparr>secrets := Some [s]\<rparr>) serviceName stageName)"
  by (auto simp: getToken_def split: option.splits sum.splits)

theorem getToken_first_secret_witness:
  "getToken (\<lambda>p k opts. case k of None \<Rightarrow> Inl (Error ''secretOrPrivateKey must have a value'')
                                 | Some key \<Rightarrow> Inr (service (data p) @ ''.'' @ key))
     \<lparr>definition' = None, secrets = Some [''s1'', ''s2'']\<rparr> ''svc'' ''dev''
     = Inr (Some ''svc@dev.s1'') \<and>
   getToken (\<lambda>p k opts. case k of None \<Rightarrow> Inl (Error ''secretOrPrivateKey must have a value'')
                                 | Some key \<Rightarrow> Inr (service (data p) @ ''.'' @ key))
     \<lparr>definition' = None, secrets = None\<rparr> ''svc'' ''dev'' = Inr None"
  using getToken_first_secret
    [of "\<lambda>p k opts. case k of None \<Rightarrow> Inl (Error ''secretOrPrivateKey must have a value'')
                            | Some key \<Rightarrow> Inr (service (data p) @ ''.'' @ key)"
        "\<lparr>definition' = None, secrets = Some [''s1'', ''s2'']\<rparr>" "''svc''" "''dev''"]
    getToken_first_secret
    [of "\<lambda>p k opts. case k of None \<Rightarrow> Inl (Error ''secretOrPrivateKey must have a value'')
                            | Some key \<Rightarrow> Inr (service (data p) @ ''.'' @ key)"
        "\<lparr>definition' = None, secrets = None\<rparr>" "''svc''" "''dev''"]
  by (simp add: token_payload_of_def)

text \<open>
  Claim C10, as amended. \<open>getHooks\<close> returns the empty array when the declared hook
  value is falsy (not declared, \<open>null\<close>, \<open>false\<close>, \<open>0\<close>, \<open>NaN\<close> or the empty string), the
  one-element array of it when it is a non-empty string, the array itself when it is
  an array; and it throws if and only if the declared value is truthy and neither a
  string nor an array.
\<close>

theorem getHooks_cases:
  "(\<not> truthy (declaredHook this hookType) \<longrightarrow> getHooks this hookType = Inr []) \<and>
   (\<forall>s. declaredHook this hookType = JStr s \<and> s \<noteq> [] \<longrightarrow>
      getHooks this hookType = Inr [JStr s]) \<and>
   (\<forall>xs. declaredHook this hookType = JArr xs \<longrightarrow> getHooks this hookType = Inr xs) \<and>
   ((\<exists>e. getHooks this hookType = Inl e) \<longleftrightarrow>
      truthy (declaredHook this hookType) \<and> \<not> is_string (declaredHook this hookType) \<and>
      \<not> is_array (declaredHook this hookType))"
proof -
  show ?thesis
  proof (cases "definition' this")
    case None
    then show ?thesis by (simp add: getHooks_def declaredHook_def)
  next
    case (Some d)
    show ?thesis
    proof (cases "truthy (hooks d)")
      case False
      with Some show ?thesis by (simp add: getHooks_def declaredHook_def)
    next
      case True
      with Some have dh: "declaredHook this hookType = get_prop (hooks d) (hookKey hookType)"
        by (simp add: declaredHook_def)
      from Some True show ?thesis
        unfolding dh
        by (cases "get_prop (hooks d) (hookKey hookType)") (simp_all add: getHooks_def)
    qed
  qed
qed

theorem getHooks_cases_witness:
  "getHooks \<lparr>definition' = Some \<lparr>hooks = JObj [(''post-deploy'', JStr ''echo done'')]\<rparr>,
             secrets = None\<rparr> PostDeploy = Inr [JStr ''echo done''] \<and>
   getHooks \<lparr>definition' = Some \<lparr>hooks = JObj [(''post-deploy'', JArr [JStr ''a'', JStr ''b''])]\<rparr>,
             secrets = None\<rparr> PostDeploy = Inr [JStr ''a'', JStr ''b''] \<and>
   getHooks \<lparr>definition' = Some \<lparr>hooks = JUndefined\<rparr>, secrets = None\<rparr> PostDeploy = Inr [] \<and>
   (\<exists>e. getHooks \<lparr>definition' = Some \<lparr>hooks = JObj [(''post-deploy'', JNum 7)]\<rparr>,
                  secrets = None\<rparr> PostDeploy = Inl e)"
  using getHooks_cases
    [of "\<lparr>definition' = Some \<lparr>hooks = JObj [(''post-deploy'', JStr ''echo done'')]\<rparr>,
          secrets = None\<rparr>" PostDeploy]
    getHooks_cases
    [of "\<lparr>definition' = Some \<lparr>hooks = JObj [(''post-deploy'', JArr [JStr ''a'', JStr ''b''])]\<rparr>,
          secrets = None\<rparr>" PostDeploy]
    getHooks_cases [of "\<lparr>definition' = Some \<lparr>hooks = JUndefined\<rparr>, secrets = None\<rparr>" PostDeploy]
    getHooks_cases
    [of "\<lparr>definition' = Some \<lparr>hooks = JObj [(''post-deploy'', JNum 7)]\<rparr>, secrets = None\<rparr>"
        PostDeploy]
  by (simp add: declaredHook_def)

text \<open>
  Claim C10 as stated fails twice. The declared hook \<open>''\<close> is a single string, yet the
  result is the empty array and not the one-element array of it; the declared hook \<open>0\<close>
  is neither a string nor an array, yet nothing is thrown.
\<close>

theorem getHooks_falsy_counterexample:
  "declaredHook \<lparr>definition' = Some \<lparr>hooks = JObj [(''post-deploy'', JStr [])]\<rparr>,
                 secrets = None\<rparr> PostDeploy = JStr [] \<and>
   getHooks \<lparr>definition' = Some \<lparr>hooks = JObj [(''post-deploy'', JStr [])]\<rparr>,
             secrets = None\<rparr> PostDeploy = Inr [] \<and>
   getHooks \<lparr>definition' = Some \<lparr>hooks = JObj [(''post-deploy'', JStr [])]\<rparr>,
             secrets = None\<rparr> PostDeploy \<noteq> Inr [JStr []] \<and>
   declaredHook \<lparr>definition' = Some \<lparr>hooks = JObj [(''post-deploy'', JNum 0)]\<rparr>,
                 secrets = None\<rparr> PostDeploy = JNum 0 \<and>
   \<not> is_string (JNum 0) \<and> \<not> is_array (JNum 0) \<and>
   getHooks \<lparr>definition' = Some \<lparr>hooks = JObj [(''post-deploy'', JNum 0)]\<rparr>,
             secrets = None\<rparr> PostDeploy = Inr []"
  by (simp add: getHooks_def declaredHook_def)

section \<open>Properties of the introspection model\<close>

subsection \<open>The built model\<close>


































subsection \<open>Changing the nullability of a column\<close>



















subsection \<open>Running the model on the schemas\<close>




subsection \<open>Junction detection\<close>





subsection \<open>Inline relations and nullability\<close>





end
